theory Spec2Isabelle
  imports Main "HOL-Library.Sublist" "HOL-Library.Char_ord" "HOL-Library.List_Lexorder"
begin

section \<open>The application code generator of goagen (package genapp)\<close>

text \<open>
  This theory embeds \<^verbatim>\<open>goagen/gen_app/generator.go\<close>: the method
  \<^verbatim>\<open>(*Generator).Generate\<close>, \<^verbatim>\<open>Cleanup\<close> and the six
  \<^verbatim>\<open>generate...\<close> methods it calls. The generator is stateful (it grows
  \<^verbatim>\<open>g.genfiles\<close> and writes files), so every function takes a \<open>world\<close> and
  returns the new one. Go's \<^verbatim>\<open>error\<close> results are values, and a
  \<^verbatim>\<open>panic\<close> is a third kind of result.

  The packages \<^verbatim>\<open>design\<close> and \<^verbatim>\<open>codegen\<close>, the artifact writers and
  \<^verbatim>\<open>generateResourceTest\<close> are called by the file but defined in other
  files. What they compute is taken as a parameter (the records \<open>lib\<close> and \<open>env\<close>
  below); the theorems hold for every value of these parameters.
\<close>

subsection \<open>The intermediate representation\<close>

type_synonym path = string

datatype error = Error string

datatype Kind =
  BooleanKind | IntegerKind | NumberKind | StringKind | DateTimeKind | UUIDKind | AnyKind

text \<open>
  Modelled from the spec: the types of package \<^verbatim>\<open>design\<close> are missing. The
  attribute tree is the spec's "recursive value-shape model (primitive, object, array, map,
  user-type reference)". \<open>IsObject\<close>, \<open>IsArray\<close> and \<open>ToObject\<close> look through a
  user-type reference at the shape it names.
\<close>

datatype DataType =
    Primitive Kind
  | Array DataType
  | Object "(string \<times> DataType) list"
  | Hash DataType DataType
  | UserType string DataType

fun IsObject :: "DataType \<Rightarrow> bool" where
  "IsObject (Object fields) = True"
| "IsObject (UserType n t) = IsObject t"
| "IsObject t = False"

fun IsArray :: "DataType \<Rightarrow> bool" where
  "IsArray (Array t) = True"
| "IsArray (UserType n t) = IsArray t"
| "IsArray t = False"

fun ToObject :: "DataType \<Rightarrow> (string \<times> DataType) list" where
  "ToObject (Object fields) = fields"
| "ToObject (UserType n t) = ToObject t"
| "ToObject t = []"

record AttributeDefinition =
  at_Type :: DataType
  at_Description :: string

record UserTypeDefinition =
  ut_TypeName :: string
  ut_Type :: DataType

record MediaTypeDefinition =
  mt_Identifier :: string
  mt_TypeName :: string
  mt_Type :: DataType
  mt_Views :: "string list"

record ResponseDefinition =
  rs_Name :: string
  rs_Status :: int
  rs_Description :: string
  rs_MediaType :: string

record RouteDefinition =
  rt_Verb :: string
  rt_Path :: string

record SecurityDefinition =
  sd_Scheme :: string
  sd_Scopes :: "string list"

record SecuritySchemeDefinition =
  ss_SchemeName :: string
  ss_Kind :: string

record EncodingDefinition =
  en_MIMETypes :: "string list"
  en_PackagePath :: string
  en_Function :: string

record FileServerDefinition =
  fsv_FilePath :: string
  fsv_RequestPath :: string

text \<open>
  \<open>a_Responses\<close> is the Go map \<^verbatim>\<open>map[string]*ResponseDefinition\<close>: a finite
  partial function with no order of its own. \<open>a_Parent\<close> is the name of the resource
  the action's back-reference \<^verbatim>\<open>a.Parent\<close> points to; the generator reads
  nothing else through that pointer.
\<close>

record ActionDefinition =
  a_Name :: string
  a_Parent :: string
  a_Routes :: "RouteDefinition list"
  a_Responses :: "string \<rightharpoonup> ResponseDefinition"
  a_Params :: "AttributeDefinition option"
  a_Headers :: "AttributeDefinition option"
  a_Payload :: "UserTypeDefinition option"
  a_PayloadOptional :: bool
  a_Security :: "SecurityDefinition option"

text \<open>
  The registries of an API (resources, actions of a resource, media types, user types)
  are walked by \<^verbatim>\<open>IterateResources\<close>, \<^verbatim>\<open>IterateActions\<close>,
  \<^verbatim>\<open>IterateMediaTypes\<close> and \<^verbatim>\<open>IterateUserTypes\<close>, which are
  defined in package design. Each registry is kept here as the list of its entries in the order in
  which its iterator visits them.
\<close>

record ResourceDefinition =
  r_Name :: string
  r_Description :: string
  r_MediaType :: string
  r_Headers :: "AttributeDefinition option"
  r_Actions :: "ActionDefinition list"
  r_FileServers :: "FileServerDefinition list"

record APIDefinition =
  api_Name :: string
  api_Resources :: "ResourceDefinition list"
  api_MediaTypes :: "MediaTypeDefinition list"
  api_Types :: "UserTypeDefinition list"
  api_Produces :: "EncodingDefinition list"
  api_Consumes :: "EncodingDefinition list"
  api_SecuritySchemes :: "SecuritySchemeDefinition list"

subsection \<open>What the writers are handed\<close>

record ImportSpec =
  imp_Name :: string
  imp_Path :: string

definition SimpleImport :: "string \<Rightarrow> ImportSpec" where
  "SimpleImport p = \<lparr>imp_Name = [], imp_Path = p\<rparr>"

definition NewImport :: "string \<Rightarrow> string \<Rightarrow> ImportSpec" where
  "NewImport n p = \<lparr>imp_Name = n, imp_Path = p\<rparr>"

record EncoderTemplateData =
  etd_MIMEType :: string
  etd_PackagePath :: string
  etd_Function :: string

record ContextTemplateData =
  cd_Name :: string
  cd_ResourceName :: string
  cd_ActionName :: string
  cd_Payload :: "UserTypeDefinition option"
  cd_Params :: "AttributeDefinition option"
  cd_Headers :: "AttributeDefinition option"
  cd_Routes :: "RouteDefinition list"
  cd_Responses :: "string \<rightharpoonup> ResponseDefinition"
  cd_API :: APIDefinition
  cd_DefaultPkg :: string
  cd_Security :: "SecurityDefinition option"

text \<open>The map literal \<^verbatim>\<open>action\<close> of generateControllers, one field per key.\<close>

record ControllerAction =
  ca_Name :: string
  ca_Routes :: "RouteDefinition list"
  ca_Context :: string
  ca_Unmarshal :: string
  ca_Payload :: "UserTypeDefinition option"
  ca_PayloadOptional :: bool
  ca_Security :: "SecurityDefinition option"

record ControllerTemplateData =
  ct_API :: APIDefinition
  ct_Resource :: string
  ct_PreflightPaths :: "string list"
  ct_FileServers :: "FileServerDefinition list"
  ct_Actions :: "ControllerAction list"
  ct_Encoders :: "EncoderTemplateData list"
  ct_Decoders :: "EncoderTemplateData list"
  ct_Origins :: "string list"

record ResourceData =
  rd_Name :: string
  rd_Identifier :: string
  rd_Description :: string
  rd_Type :: "MediaTypeDefinition option"
  rd_CanonicalTemplate :: string
  rd_CanonicalParams :: "string list"

text \<open>
  A file holds the sequence of pieces its writer was asked to render, each with the very
  data it was given; the templates that turn a piece into bytes belong to the writers.
  \<^verbatim>\<open>FormatCode\<close> rewrites a file in formatted form.
\<close>

datatype chunk =
    Header string string "ImportSpec list"
  | InitService "EncoderTemplateData list" "EncoderTemplateData list"
  | ContextChunk ContextTemplateData
  | ControllersChunk "ControllerTemplateData list"
  | SecurityChunk "SecuritySchemeDefinition list"
  | ResourceChunk ResourceData
  | MediaTypeChunk MediaTypeDefinition
  | UserTypeChunk UserTypeDefinition

datatype content = Raw "chunk list" | Formatted "chunk list"

datatype node = Dir | File content

type_synonym FS = "path \<rightharpoonup> node"

subsection \<open>The generator, the file system and the trace of a run\<close>

record Generator =
  outDir :: path
  target :: string
  notest :: bool
  genfiles :: "path list"

datatype artifact =
  Contexts | Controllers | Security | Hrefs | MediaTypes | UserTypes | ResourceTests

text \<open>
  The trace records, in order: the start of the interrupt watcher
  (\<^verbatim>\<open>go utils.Catch\<close>), each \<^verbatim>\<open>os.RemoveAll\<close> and
  \<^verbatim>\<open>os.MkdirAll\<close>, the construction of each writer, and the successful
  \<^verbatim>\<open>FormatCode\<close> that ends each writer's work.
\<close>

datatype event =
    EvCatch
  | EvRemoveAll path
  | EvMkdirAll path
  | Started artifact
  | Finished artifact

record world =
  gen :: Generator
  fs :: FS
  trace :: "event list"

datatype status = Done | Fail error | Panic error

datatype outcome = Returned "path list" "error option" | Panicked error

subsection \<open>The parameters: helpers of other packages and the environment\<close>

text \<open>
  \<open>lib\<close> collects the functions of the packages \<^verbatim>\<open>design\<close> and
  \<^verbatim>\<open>codegen\<close> and the function \<^verbatim>\<open>BuildEncoders\<close> that the
  generator calls. \<open>Context\<close> is \<^verbatim>\<open>api.Context()\<close>.
\<close>

record lib =
  Goify :: "string \<Rightarrow> bool \<Rightarrow> string"
  Context :: "APIDefinition \<Rightarrow> string"
  Merge :: "AttributeDefinition option \<Rightarrow> AttributeDefinition option \<Rightarrow> AttributeDefinition option"
  AllParams :: "ActionDefinition \<Rightarrow> AttributeDefinition option"
  PreflightPaths :: "ResourceDefinition \<Rightarrow> string list"
  AllOrigins :: "ResourceDefinition \<Rightarrow> string list"
  MediaTypeWithIdentifier :: "APIDefinition \<Rightarrow> string \<Rightarrow> MediaTypeDefinition option"
  CanonicalTemplate :: "ResourceDefinition \<Rightarrow> string"
  CanonicalParams :: "ResourceDefinition \<Rightarrow> string list"
  IsBuiltIn :: "MediaTypeDefinition \<Rightarrow> bool"
  BuildEncoders :: "EncodingDefinition list \<Rightarrow> bool \<Rightarrow> error + EncoderTemplateData list"

text \<open>
  What \<^verbatim>\<open>generateResourceTest\<close> (defined in another file) does in a run: the entries
  it creates and the names it appends to \<^verbatim>\<open>g.genfiles\<close>, both relative to the
  output directory, and its result.
\<close>

record test_run =
  rt_created :: "(string \<times> node) list"
  rt_listed :: "string list"
  rt_result :: status

text \<open>
  \<open>env\<close> is the environment of one run: which calls into the operating system and
  into the writers fail, and with which error. A failure is modelled exactly where the
  source looks at the error: the results of \<^verbatim>\<open>os.RemoveAll\<close>,
  \<^verbatim>\<open>WriteHeader\<close> and \<^verbatim>\<open>WriteInitService\<close> are discarded by the
  source, and these calls are taken to have their effect. \<open>Design\<close> is the package
  variable \<^verbatim>\<open>design.Design\<close>, which generateSecurity reads.
\<close>

record env =
  MkdirAll_err :: "path \<Rightarrow> error option"
  NewWriter_err :: "artifact \<Rightarrow> path \<Rightarrow> error option"
  Execute_err :: "path \<Rightarrow> chunk list \<Rightarrow> chunk \<Rightarrow> error option"
  FormatCode_err :: "path \<Rightarrow> chunk list \<Rightarrow> error option"
  Design :: "APIDefinition option"
  ResourceTest :: "APIDefinition \<Rightarrow> test_run"

text \<open>
  Go leaves the order in which \<^verbatim>\<open>range\<close> visits the keys of a map unspecified,
  and it differs from run to run. \<open>orders\<close> gives the order chosen at each of the two
  \<^verbatim>\<open>range\<close> loops over a map in the file.
\<close>

record orders =
  range_Responses :: "ActionDefinition \<Rightarrow> string list"
  range_encoderImports :: "(string \<rightharpoonup> bool) \<Rightarrow> string list"

subsection \<open>Paths and the operating system\<close>

text \<open>
  \<^verbatim>\<open>filepath.Join\<close> of a cleaned directory path and a file name: the two are
  joined by one separator, and an empty directory is dropped.
\<close>

definition dirprefix :: "path \<Rightarrow> path" where
  "dirprefix d = (if d \<noteq> [] \<and> last d = CHR ''/'' then d else d @ ''/'')"

definition filepath_Join :: "path \<Rightarrow> string \<Rightarrow> path" where
  "filepath_Join d f = (if d = [] then f else dirprefix d @ f)"

definition under :: "path \<Rightarrow> path \<Rightarrow> bool" where
  "under d q = (q = d \<or> prefix (dirprefix d) q)"

text \<open>\<^verbatim>\<open>os.RemoveAll\<close> removes a path and all it contains; the empty path is left alone.\<close>

definition remove_tree :: "path \<Rightarrow> FS \<Rightarrow> FS" where
  "remove_tree p f = (if p = [] then f else (\<lambda>q. if under p q then None else f q))"

definition os_RemoveAll :: "path \<Rightarrow> world \<Rightarrow> world" where
  "os_RemoveAll p w = w\<lparr>fs := remove_tree p (fs w), trace := trace w @ [EvRemoveAll p]\<rparr>"

definition os_MkdirAll :: "env \<Rightarrow> path \<Rightarrow> world \<Rightarrow> error option \<times> world" where
  "os_MkdirAll e p w =
     (case MkdirAll_err e p of
        Some err \<Rightarrow> (Some err, w\<lparr>trace := trace w @ [EvMkdirAll p]\<rparr>)
      | None \<Rightarrow> (None, w\<lparr>fs := (fs w)(p \<mapsto> Dir), trace := trace w @ [EvMkdirAll p]\<rparr>))"

subsection \<open>The writers\<close>

fun chunks_of :: "node option \<Rightarrow> chunk list" where
  "chunks_of (Some (File (Raw cs))) = cs"
| "chunks_of (Some (File (Formatted cs))) = cs"
| "chunks_of n = []"

text \<open>One of the \<^verbatim>\<open>New...Writer\<close> constructors: it creates the (empty) file.\<close>

definition NewWriter :: "env \<Rightarrow> artifact \<Rightarrow> path \<Rightarrow> world \<Rightarrow> error option \<times> world" where
  "NewWriter e art file w =
     (case NewWriter_err e art file of
        Some err \<Rightarrow> (Some err, w\<lparr>trace := trace w @ [Started art]\<rparr>)
      | None \<Rightarrow> (None, w\<lparr>fs := (fs w)(file \<mapsto> File (Raw [])), trace := trace w @ [Started art]\<rparr>))"

text \<open>\<^verbatim>\<open>WriteHeader\<close> and \<^verbatim>\<open>WriteInitService\<close>: append a piece to the file.\<close>

definition Write :: "path \<Rightarrow> chunk \<Rightarrow> world \<Rightarrow> world" where
  "Write file c w = w\<lparr>fs := (fs w)(file \<mapsto> File (Raw (chunks_of (fs w file) @ [c])))\<rparr>"

definition Execute :: "env \<Rightarrow> path \<Rightarrow> chunk \<Rightarrow> world \<Rightarrow> error option \<times> world" where
  "Execute e file c w =
     (case Execute_err e file (chunks_of (fs w file)) c of
        Some err \<Rightarrow> (Some err, w)
      | None \<Rightarrow> (None, Write file c w))"

definition FormatCode :: "env \<Rightarrow> artifact \<Rightarrow> path \<Rightarrow> world \<Rightarrow> status \<times> world" where
  "FormatCode e art file w =
     (case FormatCode_err e file (chunks_of (fs w file)) of
        Some err \<Rightarrow> (Fail err, w)
      | None \<Rightarrow> (Done, w\<lparr>fs := (fs w)(file \<mapsto> File (Formatted (chunks_of (fs w file)))),
                         trace := trace w @ [Finished art]\<rparr>))"

text \<open>
  The iterators call the function on each entry in turn and stop at the first error it
  returns.
\<close>

fun Iterate :: "('a \<Rightarrow> world \<Rightarrow> error option \<times> world) \<Rightarrow> 'a list \<Rightarrow> world \<Rightarrow> error option \<times> world" where
  "Iterate f [] w = (None, w)"
| "Iterate f (x # xs) w =
     (case f x w of
        (Some err, w') \<Rightarrow> (Some err, w')
      | (None, w') \<Rightarrow> Iterate f xs w')"

definition add_genfile :: "path \<Rightarrow> world \<Rightarrow> world" where
  "add_genfile f w = w\<lparr>gen := (gen w)\<lparr>genfiles := genfiles (gen w) @ [f]\<rparr>\<rparr>"

subsection \<open>Cleanup\<close>

definition Cleanup :: "world \<Rightarrow> world" where
  "Cleanup w =
     (if length (genfiles (gen w)) = 0 then w
      else (let w' = os_RemoveAll (outDir (gen w)) w
            in w'\<lparr>gen := (gen w')\<lparr>genfiles := []\<rparr>\<rparr>))"

subsection \<open>generateContexts\<close>

text \<open>
  The loop \<^verbatim>\<open>for k, v := range a.Responses\<close> that fills
  \<^verbatim>\<open>non101\<close>, over the keys in the order \<open>ks\<close> in which
  \<^verbatim>\<open>range\<close> yields them.
\<close>

fun non101_loop ::
  "(string \<rightharpoonup> ResponseDefinition) \<Rightarrow> string list \<Rightarrow> (string \<rightharpoonup> ResponseDefinition)
     \<Rightarrow> (string \<rightharpoonup> ResponseDefinition)" where
  "non101_loop m [] non101 = non101"
| "non101_loop m (k # ks) non101 =
     (case m k of
        None \<Rightarrow> non101_loop m ks non101
      | Some v \<Rightarrow>
          if rs_Status v \<noteq> 101 then non101_loop m ks (non101(k \<mapsto> v))
          else non101_loop m ks non101)"

definition nil_if_empty :: "AttributeDefinition option \<Rightarrow> AttributeDefinition option" where
  "nil_if_empty att =
     (case att of
        None \<Rightarrow> None
      | Some h \<Rightarrow> if length (ToObject (at_Type h)) = 0 then None else Some h)"

definition contextData ::
  "orders \<Rightarrow> lib \<Rightarrow> string \<Rightarrow> APIDefinition \<Rightarrow> ResourceDefinition \<Rightarrow> ActionDefinition
     \<Rightarrow> ContextTemplateData" where
  "contextData od lb pkg api r a =
     (let ctxName = Goify lb (a_Name a) True @ Goify lb (a_Parent a) True @ ''Context'';
          headers = nil_if_empty (Merge lb (r_Headers r) (a_Headers a));
          params = nil_if_empty (AllParams lb a);
          non101 = non101_loop (a_Responses a) (range_Responses od a) Map.empty
      in \<lparr>cd_Name = ctxName,
          cd_ResourceName = r_Name r,
          cd_ActionName = a_Name a,
          cd_Payload = a_Payload a,
          cd_Params = params,
          cd_Headers = headers,
          cd_Routes = a_Routes a,
          cd_Responses = non101,
          cd_API = api,
          cd_DefaultPkg = pkg,
          cd_Security = a_Security a\<rparr>)"

definition contexts_imports :: "ImportSpec list" where
  "contexts_imports =
     [SimpleImport ''fmt'',
      SimpleImport ''golang.org/x/net/context'',
      SimpleImport ''strconv'',
      SimpleImport ''strings'',
      SimpleImport ''time'',
      SimpleImport ''github.com/goadesign/goa'',
      NewImport ''uuid'' ''github.com/satori/go.uuid'']"

definition generateContexts ::
  "env \<Rightarrow> orders \<Rightarrow> lib \<Rightarrow> APIDefinition \<Rightarrow> world \<Rightarrow> status \<times> world" where
  "generateContexts e od lb api w =
     (let ctxFile = filepath_Join (outDir (gen w)) ''contexts.go'' in
      case NewWriter e Contexts ctxFile w of
        (Some err, w1) \<Rightarrow> (Panic err, w1)
      | (None, w1) \<Rightarrow>
          (let title = Context lb api @ '': Application Contexts'';
               w2 = add_genfile ctxFile w1;
               w3 = Write ctxFile (Header title (target (gen w2)) contexts_imports) w2
           in case Iterate (\<lambda>r. Iterate (\<lambda>a wa.
                       Execute e ctxFile (ContextChunk (contextData od lb (target (gen wa)) api r a)) wa)
                     (r_Actions r)) (api_Resources api) w3 of
                (Some err, w4) \<Rightarrow> (Fail err, w4)
              | (None, w4) \<Rightarrow> FormatCode e Contexts ctxFile w4))"

subsection \<open>generateControllers\<close>

definition controllers_imports :: "ImportSpec list" where
  "controllers_imports =
     [SimpleImport ''net/http'',
      SimpleImport ''fmt'',
      SimpleImport ''golang.org/x/net/context'',
      SimpleImport ''github.com/goadesign/goa'',
      SimpleImport ''github.com/goadesign/goa/cors'']"

text \<open>The map \<^verbatim>\<open>encoderImports\<close> after the two loops that fill it.\<close>

definition encoderImports ::
  "EncoderTemplateData list \<Rightarrow> EncoderTemplateData list \<Rightarrow> (string \<rightharpoonup> bool)" where
  "encoderImports encoders decoders =
     fold (\<lambda>data m. m(etd_PackagePath data \<mapsto> True)) decoders
       (fold (\<lambda>data m. m(etd_PackagePath data \<mapsto> True)) encoders Map.empty)"

text \<open>
  \<^verbatim>\<open>packagePaths\<close>: the keys of the map in the order \<^verbatim>\<open>range\<close> yields
  them, without the goa package itself, then \<^verbatim>\<open>sort.Strings\<close> (bytewise
  lexicographic order).
\<close>

definition packagePaths :: "string list \<Rightarrow> string list" where
  "packagePaths ks = sort (filter (\<lambda>packagePath. packagePath \<noteq> ''github.com/goadesign/goa'') ks)"

definition controllerAction :: "lib \<Rightarrow> ResourceDefinition \<Rightarrow> ActionDefinition \<Rightarrow> ControllerAction" where
  "controllerAction lb r a =
     (let context = Goify lb (a_Name a) True @ Goify lb (r_Name r) True @ ''Context'';
          unmarshal = ''unmarshal'' @ Goify lb (a_Name a) True @ Goify lb (r_Name r) True @ ''Payload''
      in \<lparr>ca_Name = Goify lb (a_Name a) True,
          ca_Routes = a_Routes a,
          ca_Context = context,
          ca_Unmarshal = unmarshal,
          ca_Payload = a_Payload a,
          ca_PayloadOptional = a_PayloadOptional a,
          ca_Security = a_Security a\<rparr>)"

text \<open>
  The callback given to \<^verbatim>\<open>IterateResources\<close> in generateControllers never
  returns an error, so the walk is a plain loop that collects the data of the resources
  with an action or a file server.
\<close>

definition controllerData ::
  "lib \<Rightarrow> APIDefinition \<Rightarrow> EncoderTemplateData list \<Rightarrow> EncoderTemplateData list
     \<Rightarrow> ResourceDefinition \<Rightarrow> ControllerTemplateData option" where
  "controllerData lb api encoders decoders r =
     (let actions = map (controllerAction lb r) (r_Actions r) in
      if length actions > 0 \<or> length (r_FileServers r) > 0
      then Some \<lparr>ct_API = api,
                 ct_Resource = Goify lb (r_Name r) True,
                 ct_PreflightPaths = PreflightPaths lb r,
                 ct_FileServers = r_FileServers r,
                 ct_Actions = actions,
                 ct_Encoders = encoders,
                 ct_Decoders = decoders,
                 ct_Origins = AllOrigins lb r\<rparr>
      else None)"

definition controllersData ::
  "lib \<Rightarrow> APIDefinition \<Rightarrow> EncoderTemplateData list \<Rightarrow> EncoderTemplateData list
     \<Rightarrow> ControllerTemplateData list" where
  "controllersData lb api encoders decoders =
     List.map_filter (controllerData lb api encoders decoders) (api_Resources api)"

definition generateControllers ::
  "env \<Rightarrow> orders \<Rightarrow> lib \<Rightarrow> APIDefinition \<Rightarrow> world \<Rightarrow> status \<times> world" where
  "generateControllers e od lb api w =
     (let ctlFile = filepath_Join (outDir (gen w)) ''controllers.go'' in
      case NewWriter e Controllers ctlFile w of
        (Some err, w1) \<Rightarrow> (Panic err, w1)
      | (None, w1) \<Rightarrow>
          (let title = Context lb api @ '': Application Controllers'' in
           case BuildEncoders lb (api_Produces api) True of
             Inl err \<Rightarrow> (Fail err, w1)
           | Inr encoders \<Rightarrow>
               (case BuildEncoders lb (api_Consumes api) False of
                  Inl err \<Rightarrow> (Fail err, w1)
                | Inr decoders \<Rightarrow>
                    (let imports = controllers_imports @
                           map SimpleImport
                             (packagePaths (range_encoderImports od (encoderImports encoders decoders)));
                         w2 = Write ctlFile (Header title (target (gen w1)) imports) w1;
                         w3 = Write ctlFile (InitService encoders decoders) w2;
                         w4 = add_genfile ctlFile w3
                     in case Execute e ctlFile
                               (ControllersChunk (controllersData lb api encoders decoders)) w4 of
                          (Some err, w5) \<Rightarrow> (Fail err, w5)
                        | (None, w5) \<Rightarrow> FormatCode e Controllers ctlFile w5))))"

subsection \<open>generateSecurity\<close>

definition security_imports :: "ImportSpec list" where
  "security_imports =
     [SimpleImport ''net/http'',
      SimpleImport ''errors'',
      SimpleImport ''golang.org/x/net/context'',
      SimpleImport ''github.com/goadesign/goa'']"

text \<open>
  The schemes handed to the writer are those of the package variable
  \<^verbatim>\<open>design.Design\<close>, not of the argument; reading them through a nil
  \<^verbatim>\<open>design.Design\<close> is a nil dereference, which panics.
\<close>

definition generateSecurity ::
  "env \<Rightarrow> lib \<Rightarrow> APIDefinition \<Rightarrow> world \<Rightarrow> status \<times> world" where
  "generateSecurity e lb api w =
     (if length (api_SecuritySchemes api) = 0 then (Done, w)
      else
        (let secFile = filepath_Join (outDir (gen w)) ''security.go'' in
         case NewWriter e Security secFile w of
           (Some err, w1) \<Rightarrow> (Panic err, w1)
         | (None, w1) \<Rightarrow>
             (let title = Context lb api @ '': Application Security'';
                  w2 = Write secFile (Header title (target (gen w1)) security_imports) w1;
                  w3 = add_genfile secFile w2
              in case Design e of
                   None \<Rightarrow> (Panic (Error ''invalid memory address or nil pointer dereference''), w3)
                 | Some d \<Rightarrow>
                     (case Execute e secFile (SecurityChunk (api_SecuritySchemes d)) w3 of
                        (Some err, w4) \<Rightarrow> (Fail err, w4)
                      | (None, w4) \<Rightarrow> FormatCode e Security secFile w4))))"

subsection \<open>generateHrefs\<close>

definition resourceData :: "lib \<Rightarrow> APIDefinition \<Rightarrow> ResourceDefinition \<Rightarrow> ResourceData" where
  "resourceData lb api r =
     (let m = MediaTypeWithIdentifier lb api (r_MediaType r);
          identifier = (case m of Some mt \<Rightarrow> mt_Identifier mt | None \<Rightarrow> ''text/plain'')
      in \<lparr>rd_Name = Goify lb (r_Name r) True,
          rd_Identifier = identifier,
          rd_Description = r_Description r,
          rd_Type = m,
          rd_CanonicalTemplate = CanonicalTemplate lb r,
          rd_CanonicalParams = CanonicalParams lb r\<rparr>)"

definition generateHrefs ::
  "env \<Rightarrow> lib \<Rightarrow> APIDefinition \<Rightarrow> world \<Rightarrow> status \<times> world" where
  "generateHrefs e lb api w =
     (let hrefFile = filepath_Join (outDir (gen w)) ''hrefs.go'' in
      case NewWriter e Hrefs hrefFile w of
        (Some err, w1) \<Rightarrow> (Panic err, w1)
      | (None, w1) \<Rightarrow>
          (let title = Context lb api @ '': Application Resource Href Factories'';
               w2 = Write hrefFile (Header title (target (gen w1)) [SimpleImport ''fmt'']) w1
           in case Iterate (\<lambda>r. Execute e hrefFile (ResourceChunk (resourceData lb api r)))
                     (api_Resources api) w2 of
                (err, w3) \<Rightarrow>
                  (let w4 = add_genfile hrefFile w3 in
                   case err of
                     Some er \<Rightarrow> (Fail er, w4)
                   | None \<Rightarrow> FormatCode e Hrefs hrefFile w4)))"

subsection \<open>generateMediaTypes\<close>

definition mediatypes_imports :: "ImportSpec list" where
  "mediatypes_imports =
     [SimpleImport ''github.com/goadesign/goa'',
      SimpleImport ''fmt'',
      SimpleImport ''time'',
      NewImport ''uuid'' ''github.com/satori/go.uuid'']"

text \<open>The callback given to \<^verbatim>\<open>IterateMediaTypes\<close>.\<close>

definition mediaTypeStep ::
  "env \<Rightarrow> lib \<Rightarrow> path \<Rightarrow> MediaTypeDefinition \<Rightarrow> world \<Rightarrow> error option \<times> world" where
  "mediaTypeStep e lb mtFile mt w =
     (if IsBuiltIn lb mt then (None, w)
      else if IsObject (mt_Type mt) \<or> IsArray (mt_Type mt)
           then Execute e mtFile (MediaTypeChunk mt) w
      else (None, w))"

definition generateMediaTypes ::
  "env \<Rightarrow> lib \<Rightarrow> APIDefinition \<Rightarrow> world \<Rightarrow> status \<times> world" where
  "generateMediaTypes e lb api w =
     (let mtFile = filepath_Join (outDir (gen w)) ''media_types.go'' in
      case NewWriter e MediaTypes mtFile w of
        (Some err, w1) \<Rightarrow> (Panic err, w1)
      | (None, w1) \<Rightarrow>
          (let title = Context lb api @ '': Application Media Types'';
               w2 = Write mtFile (Header title (target (gen w1)) mediatypes_imports) w1
           in case Iterate (mediaTypeStep e lb mtFile) (api_MediaTypes api) w2 of
                (err, w3) \<Rightarrow>
                  (let w4 = add_genfile mtFile w3 in
                   case err of
                     Some er \<Rightarrow> (Fail er, w4)
                   | None \<Rightarrow> FormatCode e MediaTypes mtFile w4)))"

subsection \<open>generateUserTypes\<close>

definition usertypes_imports :: "ImportSpec list" where
  "usertypes_imports =
     [SimpleImport ''github.com/goadesign/goa'',
      SimpleImport ''fmt'',
      SimpleImport ''time'']"

definition generateUserTypes ::
  "env \<Rightarrow> lib \<Rightarrow> APIDefinition \<Rightarrow> world \<Rightarrow> status \<times> world" where
  "generateUserTypes e lb api w =
     (let utFile = filepath_Join (outDir (gen w)) ''user_types.go'' in
      case NewWriter e UserTypes utFile w of
        (Some err, w1) \<Rightarrow> (Panic err, w1)
      | (None, w1) \<Rightarrow>
          (let title = Context lb api @ '': Application User Types'';
               w2 = Write utFile (Header title (target (gen w1)) usertypes_imports) w1
           in case Iterate (\<lambda>t. Execute e utFile (UserTypeChunk t)) (api_Types api) w2 of
                (err, w3) \<Rightarrow>
                  (let w4 = add_genfile utFile w3 in
                   case err of
                     Some er \<Rightarrow> (Fail er, w4)
                   | None \<Rightarrow> FormatCode e UserTypes utFile w4)))"

subsection \<open>generateResourceTest\<close>

text \<open>
  The method is called by Generate but defined elsewhere. Its run is given by the
  environment: entries created below the output directory, names appended to
  \<^verbatim>\<open>g.genfiles\<close>, and the result.
\<close>

definition create_entries :: "path \<Rightarrow> (string \<times> node) list \<Rightarrow> FS \<Rightarrow> FS" where
  "create_entries d entries f = fold (\<lambda>(n, nd) f'. f'(filepath_Join d n \<mapsto> nd)) entries f"

definition generateResourceTest :: "env \<Rightarrow> APIDefinition \<Rightarrow> world \<Rightarrow> status \<times> world" where
  "generateResourceTest e api w =
     (let run = ResourceTest e api;
          d = outDir (gen w);
          w1 = w\<lparr>fs := create_entries d (rt_created run) (fs w),
                 trace := trace w @ [Started ResourceTests]\<rparr>;
          w2 = w1\<lparr>gen := (gen w1)\<lparr>genfiles := genfiles (gen w1) @ map (filepath_Join d) (rt_listed run)\<rparr>\<rparr>
      in case rt_result run of
           Done \<Rightarrow> (Done, w2\<lparr>trace := trace w2 @ [Finished ResourceTests]\<rparr>)
         | r \<Rightarrow> (r, w2))"

subsection \<open>Generate\<close>

text \<open>
  \<open>andThen\<close> is the chain \<^verbatim>\<open>if err := g.generate...(api); err != nil { return nil, err }\<close>:
  the next step runs only if the one before returned nil.
\<close>

definition andThen :: "status \<times> world \<Rightarrow> (world \<Rightarrow> status \<times> world) \<Rightarrow> status \<times> world" where
  "andThen r f = (case r of (Done, w) \<Rightarrow> f w | (st, w) \<Rightarrow> (st, w))"

text \<open>
  The deferred function runs when Generate returns and when it panics. It calls Cleanup
  if the named result \<^verbatim>\<open>err\<close> is not nil; a panic leaves \<^verbatim>\<open>err\<close> nil.
\<close>

definition deferred :: "outcome \<times> world \<Rightarrow> outcome \<times> world" where
  "deferred r =
     (case r of
        (Returned files (Some err), w) \<Rightarrow> (Returned files (Some err), Cleanup w)
      | (oc, w) \<Rightarrow> (oc, w))"

text \<open>
  The nil slice \<^verbatim>\<open>nil\<close> of the \<^verbatim>\<open>return nil, err\<close> statements is the
  empty list.
\<close>

definition Generate ::
  "env \<Rightarrow> orders \<Rightarrow> lib \<Rightarrow> APIDefinition option \<Rightarrow> world \<Rightarrow> outcome \<times> world" where
  "Generate e od lb api_ptr w =
     (case api_ptr of
        None \<Rightarrow>
          (Returned [] (Some (Error ''missing API definition, make sure design is properly initialized'')), w)
      | Some api \<Rightarrow>
          (let w0 = w\<lparr>trace := trace w @ [EvCatch]\<rparr>;
               w1 = os_RemoveAll (outDir (gen w0)) w0
           in deferred
               (case os_MkdirAll e (outDir (gen w1)) w1 of
                  (Some err, w2) \<Rightarrow> (Returned [] (Some err), w2)
                | (None, w2) \<Rightarrow>
                    (let w3 = w2\<lparr>gen := (gen w2)\<lparr>genfiles := [outDir (gen w2)]\<rparr>\<rparr>;
                         r1 = generateContexts e od lb api w3;
                         r2 = andThen r1 (generateControllers e od lb api);
                         r3 = andThen r2 (generateSecurity e lb api);
                         r4 = andThen r3 (generateHrefs e lb api);
                         r5 = andThen r4 (generateMediaTypes e lb api);
                         r6 = andThen r5 (generateUserTypes e lb api);
                         r7 = andThen r6 (\<lambda>w'. if \<not> notest (gen w') then generateResourceTest e api w'
                                               else (Done, w'))
                     in case r7 of
                          (Done, w4) \<Rightarrow> (Returned (genfiles (gen w4)) None, w4)
                        | (Fail err, w4) \<Rightarrow> (Returned [] (Some err), w4)
                        | (Panic err, w4) \<Rightarrow> (Panicked err, w4)))))"

section \<open>Notions used in the statements\<close>

subsection \<open>The files and the order of a run\<close>

definition security_files :: "APIDefinition \<Rightarrow> path \<Rightarrow> path list" where
  "security_files api d =
     (if api_SecuritySchemes api = [] then [] else [filepath_Join d ''security.go''])"

definition test_files :: "env \<Rightarrow> APIDefinition \<Rightarrow> Generator \<Rightarrow> path list" where
  "test_files e api g =
     (if notest g then [] else map (filepath_Join (outDir g)) (rt_listed (ResourceTest e api)))"

definition written_files :: "env \<Rightarrow> APIDefinition \<Rightarrow> Generator \<Rightarrow> path list" where
  "written_files e api g =
     [filepath_Join (outDir g) ''contexts.go'', filepath_Join (outDir g) ''controllers.go''] @
     security_files api (outDir g) @
     [filepath_Join (outDir g) ''hrefs.go'', filepath_Join (outDir g) ''media_types.go'',
      filepath_Join (outDir g) ''user_types.go''] @
     test_files e api g"

definition writer_order :: "APIDefinition \<Rightarrow> Generator \<Rightarrow> artifact list" where
  "writer_order api g =
     [Contexts, Controllers] @
     (if api_SecuritySchemes api = [] then [] else [Security]) @
     [Hrefs, MediaTypes, UserTypes] @
     (if notest g then [] else [ResourceTests])"

text \<open>
  Each writer in turn is constructed and finishes; a later writer is constructed only
  after the one before has finished.
\<close>

definition writer_events :: "APIDefinition \<Rightarrow> Generator \<Rightarrow> event list" where
  "writer_events api g = concat (map (\<lambda>a. [Started a, Finished a]) (writer_order api g))"

text \<open>The chain of writer calls of Generate, as one function of the world.\<close>

definition steps :: "env \<Rightarrow> orders \<Rightarrow> lib \<Rightarrow> APIDefinition \<Rightarrow> world \<Rightarrow> status \<times> world" where
  "steps e od lb api w =
     andThen (andThen (andThen (andThen (andThen (andThen
       (generateContexts e od lb api w)
       (generateControllers e od lb api))
       (generateSecurity e lb api))
       (generateHrefs e lb api))
       (generateMediaTypes e lb api))
       (generateUserTypes e lb api))
       (\<lambda>w'. if \<not> notest (gen w') then generateResourceTest e api w' else (Done, w'))"

text \<open>
  What a step does to the generator and to the trace: it leaves the configuration alone,
  appends to \<^verbatim>\<open>genfiles\<close> (exactly \<open>fls\<close> when it returns nil) and appends a
  prefix of \<open>evs\<close> to the trace (all of it when it returns nil).
\<close>

definition step_ok ::
  "Generator \<Rightarrow> path list \<Rightarrow> event list \<Rightarrow> (world \<Rightarrow> status \<times> world) \<Rightarrow> bool" where
  "step_ok g0 fls evs f =
     (\<forall>w st w'. outDir (gen w) = outDir g0 \<and> notest (gen w) = notest g0 \<and> f w = (st, w') \<longrightarrow>
        outDir (gen w') = outDir g0 \<and> notest (gen w') = notest g0 \<and> target (gen w') = target (gen w) \<and>
        (\<exists>fl. genfiles (gen w') = genfiles (gen w) @ fl \<and> (st = Done \<longrightarrow> fl = fls)) \<and>
        (\<exists>tr. trace w' = trace w @ tr \<and> prefix tr evs \<and> (st = Done \<longrightarrow> tr = evs)))"

subsection \<open>The contents of the files of a run without failure\<close>

text \<open>The media types for which the media-type writer is asked to render a piece.\<close>

definition emitted :: "lib \<Rightarrow> MediaTypeDefinition \<Rightarrow> bool" where
  "emitted lb mt = (\<not> IsBuiltIn lb mt \<and> (IsObject (mt_Type mt) \<or> IsArray (mt_Type mt)))"

definition contexts_content :: "orders \<Rightarrow> lib \<Rightarrow> string \<Rightarrow> APIDefinition \<Rightarrow> chunk list" where
  "contexts_content od lb pkg api =
     Header (Context lb api @ '': Application Contexts'') pkg contexts_imports #
     concat (map (\<lambda>r. map (\<lambda>a. ContextChunk (contextData od lb pkg api r a)) (r_Actions r))
               (api_Resources api))"

definition controllers_content ::
  "orders \<Rightarrow> lib \<Rightarrow> string \<Rightarrow> APIDefinition \<Rightarrow> EncoderTemplateData list \<Rightarrow> EncoderTemplateData list
     \<Rightarrow> chunk list" where
  "controllers_content od lb pkg api encoders decoders =
     [Header (Context lb api @ '': Application Controllers'') pkg
        (controllers_imports @ map SimpleImport
           (packagePaths (range_encoderImports od (encoderImports encoders decoders)))),
      InitService encoders decoders,
      ControllersChunk (controllersData lb api encoders decoders)]"

definition security_content :: "lib \<Rightarrow> string \<Rightarrow> APIDefinition \<Rightarrow> APIDefinition \<Rightarrow> chunk list" where
  "security_content lb pkg api dsg =
     [Header (Context lb api @ '': Application Security'') pkg security_imports,
      SecurityChunk (api_SecuritySchemes dsg)]"

definition hrefs_content :: "lib \<Rightarrow> string \<Rightarrow> APIDefinition \<Rightarrow> chunk list" where
  "hrefs_content lb pkg api =
     Header (Context lb api @ '': Application Resource Href Factories'') pkg [SimpleImport ''fmt''] #
     map (\<lambda>r. ResourceChunk (resourceData lb api r)) (api_Resources api)"

definition mediatypes_content :: "lib \<Rightarrow> string \<Rightarrow> APIDefinition \<Rightarrow> chunk list" where
  "mediatypes_content lb pkg api =
     Header (Context lb api @ '': Application Media Types'') pkg mediatypes_imports #
     map MediaTypeChunk (filter (emitted lb) (api_MediaTypes api))"

definition usertypes_content :: "lib \<Rightarrow> string \<Rightarrow> APIDefinition \<Rightarrow> chunk list" where
  "usertypes_content lb pkg api =
     Header (Context lb api @ '': Application User Types'') pkg usertypes_imports #
     map UserTypeChunk (api_Types api)"

text \<open>
  A run without failure: no call into the operating system or a writer fails,
  \<^verbatim>\<open>BuildEncoders\<close> returns its two lists, \<^verbatim>\<open>design.Design\<close> is set
  when the security writer reads it, and the resource-test step (when it runs) returns nil.
\<close>

definition encoders_of :: "lib \<Rightarrow> APIDefinition \<Rightarrow> EncoderTemplateData list" where
  "encoders_of lb api =
     (case BuildEncoders lb (api_Produces api) True of Inr encoders \<Rightarrow> encoders | Inl err \<Rightarrow> [])"

definition decoders_of :: "lib \<Rightarrow> APIDefinition \<Rightarrow> EncoderTemplateData list" where
  "decoders_of lb api =
     (case BuildEncoders lb (api_Consumes api) False of Inr decoders \<Rightarrow> decoders | Inl err \<Rightarrow> [])"

definition quiet :: "env \<Rightarrow> lib \<Rightarrow> APIDefinition \<Rightarrow> Generator \<Rightarrow> bool" where
  "quiet e lb api g =
     ((\<forall>p. MkdirAll_err e p = None) \<and>
      (\<forall>a p. NewWriter_err e a p = None) \<and>
      (\<forall>p cs c. Execute_err e p cs c = None) \<and>
      (\<forall>p cs. FormatCode_err e p cs = None) \<and>
      BuildEncoders lb (api_Produces api) True = Inr (encoders_of lb api) \<and>
      BuildEncoders lb (api_Consumes api) False = Inr (decoders_of lb api) \<and>
      (api_SecuritySchemes api = [] \<or> Design e \<noteq> None) \<and>
      (notest g \<or> rt_result (ResourceTest e api) = Done))"

definition generated_fs :: "env \<Rightarrow> orders \<Rightarrow> lib \<Rightarrow> APIDefinition \<Rightarrow> world \<Rightarrow> FS" where
  "generated_fs e od lb api w =
     (let d = outDir (gen w);
          pkg = target (gen w);
          f0 = (remove_tree d (fs w))(d \<mapsto> Dir);
          f1 = f0(filepath_Join d ''contexts.go'' \<mapsto> File (Formatted (contexts_content od lb pkg api)));
          f2 = f1(filepath_Join d ''controllers.go'' \<mapsto>
                    File (Formatted (controllers_content od lb pkg api (encoders_of lb api) (decoders_of lb api))));
          f3 = (if api_SecuritySchemes api = [] then f2
                else case Design e of
                       None \<Rightarrow> f2
                     | Some dsg \<Rightarrow> f2(filepath_Join d ''security.go'' \<mapsto>
                                      File (Formatted (security_content lb pkg api dsg))));
          f4 = f3(filepath_Join d ''hrefs.go'' \<mapsto> File (Formatted (hrefs_content lb pkg api)));
          f5 = f4(filepath_Join d ''media_types.go'' \<mapsto> File (Formatted (mediatypes_content lb pkg api)));
          f6 = f5(filepath_Join d ''user_types.go'' \<mapsto> File (Formatted (usertypes_content lb pkg api)))
      in if notest (gen w) then f6 else create_entries d (rt_created (ResourceTest e api)) f6)"

subsection \<open>The order of map iteration\<close>

text \<open>
  \<^verbatim>\<open>range\<close> over a map yields every key of the map exactly once. \<open>range_ok\<close>
  says so of the orders chosen in a run on \<open>api\<close>.
\<close>

definition range_ok :: "orders \<Rightarrow> lib \<Rightarrow> APIDefinition \<Rightarrow> bool" where
  "range_ok od lb api =
     ((\<forall>r \<in> set (api_Resources api). \<forall>a \<in> set (r_Actions r).
          distinct (range_Responses od a) \<and> set (range_Responses od a) = dom (a_Responses a)) \<and>
      distinct (range_encoderImports od (encoderImports (encoders_of lb api) (decoders_of lb api))) \<and>
      set (range_encoderImports od (encoderImports (encoders_of lb api) (decoders_of lb api))) =
        dom (encoderImports (encoders_of lb api) (decoders_of lb api)))"

subsection \<open>Goify and BuildEncoders as the specification describes them\<close>

text \<open>
  Modelled from the spec: \<^verbatim>\<open>codegen.Goify\<close> is missing. The specification calls it
  "a deterministic casing transform (word-boundary-aware capitalization) so arbitrary
  free-form input ("get-widget", "get_widget", "GetWidget") normalizes identically".
  Here a word ends at every character that is not a letter or a digit; such characters
  are dropped, the first letter of each word is made upper case, and the first letter of
  the result is upper or lower case as the second argument asks.
\<close>

definition is_alnum :: "char \<Rightarrow> bool" where
  "is_alnum c = (let n = (of_char c :: nat) in
     (48 \<le> n \<and> n \<le> 57) \<or> (65 \<le> n \<and> n \<le> 90) \<or> (97 \<le> n \<and> n \<le> 122))"

definition to_upper :: "char \<Rightarrow> char" where
  "to_upper c = (let n = (of_char c :: nat) in if 97 \<le> n \<and> n \<le> 122 then char_of (n - 32) else c)"

definition to_lower :: "char \<Rightarrow> char" where
  "to_lower c = (let n = (of_char c :: nat) in if 65 \<le> n \<and> n \<le> 90 then char_of (n + 32) else c)"

fun capitalise_words :: "bool \<Rightarrow> string \<Rightarrow> string" where
  "capitalise_words cap [] = []"
| "capitalise_words cap (c # cs) =
     (if is_alnum c then (if cap then to_upper c else c) # capitalise_words False cs
      else capitalise_words True cs)"

definition Goify_spec :: "string \<Rightarrow> bool \<Rightarrow> string" where
  "Goify_spec str firstUpper =
     (case capitalise_words True str of
        [] \<Rightarrow> []
      | c # cs \<Rightarrow> (if firstUpper then to_upper c else to_lower c) # cs)"

text \<open>
  Modelled from the spec: \<^verbatim>\<open>BuildEncoders\<close> is missing. The specification says it
  "builds the deduplicated, alphabetically sorted list of (MIME-type \<rightarrow> serializer binding)
  pairs": one pair for each MIME type of each encoding definition, binding it to the
  definition's package and function, without duplicates, sorted by MIME type.
\<close>

definition bindings :: "EncodingDefinition list \<Rightarrow> EncoderTemplateData list" where
  "bindings info =
     concat (map (\<lambda>d. map (\<lambda>m. \<lparr>etd_MIMEType = m, etd_PackagePath = en_PackagePath d,
                                   etd_Function = en_Function d\<rparr>) (en_MIMETypes d)) info)"

definition BuildEncoders_spec :: "EncodingDefinition list \<Rightarrow> bool \<Rightarrow> error + EncoderTemplateData list" where
  "BuildEncoders_spec info encoder = Inr (sort_key etd_MIMEType (remdups (bindings info)))"

section \<open>Properties\<close>

subsection \<open>A nil API definition\<close>

text \<open>
  C9. Called with a nil API definition, Generate returns a nil file list and the error
  "missing API definition, make sure design is properly initialized", and has no effect:
  the file system, the generator and the trace are as before, so the output directory is
  neither removed nor created and the interrupt watcher is not started.
\<close>

theorem Generate_nil_api:
  "Generate e od lb None w =
     (Returned [] (Some (Error ''missing API definition, make sure design is properly initialized'')), w)"
  by (simp add: Generate_def)

end
